theory Spec2Isabelle
  imports Complex_Main "HOL-Library.Word"
begin

unbundle bit_operations_syntax

section \<open>Python values used by clipboard\_manager.py\<close>

text \<open>
  A Python \<open>str\<close> is a \<open>string\<close>: each \<open>char\<close> is one code point in the range
  0..255. A Python \<open>bytes\<close> object is a list of 8-bit words. The \<open>content\<close> of a
  clipboard item is dynamically typed in the source: a \<open>str\<close> for text, a \<open>bytes\<close>
  object for an image.
\<close>

type_synonym byte = "8 word"

datatype content = Str string | Bytes "byte list"

datatype error = KeyError | TypeError | ValueError | Base64Error | OSError | IndexError

text \<open>The result of a method call: the value it returns, or the exception it raises.\<close>

datatype 'a outcome = Returned 'a | Raised error

subsection \<open>\<open>str(content)\<close>\<close>

text \<open>
  \<open>str\<close> of a \<open>str\<close> is the string itself. \<open>str\<close> of a \<open>bytes\<close> object is its
  \<open>repr\<close>: the letter b, a quote, the escaped bytes, the quote. The quote is a double
  quote when the bytes hold a single quote and no double quote, a single quote otherwise.
\<close>

definition squote :: char where
  "squote = CHR 0x27"

definition dquote :: char where
  "dquote = CHR 0x22"

definition backslash :: char where
  "backslash = CHR 0x5C"

definition hexdigits :: string where
  "hexdigits = ''0123456789abcdef''"

definition byte_char :: "byte \<Rightarrow> char" where
  "byte_char c = char_of (unat c)"

definition repr_byte :: "char \<Rightarrow> byte \<Rightarrow> string" where
  "repr_byte quote c =
     (if byte_char c = quote \<or> byte_char c = backslash then [backslash, byte_char c]
      else if c = 0x09 then [backslash, CHR ''t'']
      else if c = 0x0A then [backslash, CHR ''n'']
      else if c = 0x0D then [backslash, CHR ''r'']
      else if c < 0x20 \<or> 0x7F \<le> c then
        [backslash, CHR ''x'', hexdigits ! unat (drop_bit 4 (c AND 0xF0)), hexdigits ! unat (c AND 0x0F)]
      else [byte_char c])"

definition bytes_repr :: "byte list \<Rightarrow> string" where
  "bytes_repr bs =
     (let quote = (if 0x27 \<in> set bs \<and> 0x22 \<notin> set bs then dquote else squote)
      in CHR ''b'' # quote # concat (map (repr_byte quote) bs) @ [quote])"

fun py_str :: "content \<Rightarrow> string" where
  "py_str (Str s) = s"
| "py_str (Bytes bs) = bytes_repr bs"

subsection \<open>\<open>hashlib.md5(s.encode()).hexdigest()\<close>\<close>

text \<open>
  \<open>s.encode()\<close> is the UTF-8 encoding: one byte for a code point below 128, two bytes
  for the others of the range. \<open>md5_digest\<close> is the MD5 algorithm of RFC 1321 on 32-bit
  words: the message is padded with the byte \<open>0x80\<close>, zeros and its length in bits, and
  every block of 64 bytes goes through 64 rounds. \<open>hexdigest\<close> writes the 16 bytes of
  the digest as 32 lower-case hexadecimal digits.
\<close>

definition utf8_char :: "char \<Rightarrow> byte list" where
  "utf8_char ch =
     (let c = (of_char ch :: byte)
      in if c < 0x80 then [c] else [0xC0 OR drop_bit 6 c, 0x80 OR (c AND 0x3F)])"

definition encode_utf8 :: "string \<Rightarrow> byte list" where
  "encode_utf8 s = concat (map utf8_char s)"

definition md5_K :: "32 word list" where
  "md5_K = [0xd76aa478, 0xe8c7b756, 0x242070db, 0xc1bdceee, 0xf57c0faf, 0x4787c62a, 0xa8304613, 0xfd469501, 0x698098d8, 0x8b44f7af, 0xffff5bb1, 0x895cd7be, 0x6b901122, 0xfd987193, 0xa679438e, 0x49b40821, 0xf61e2562, 0xc040b340, 0x265e5a51, 0xe9b6c7aa, 0xd62f105d, 0x02441453, 0xd8a1e681, 0xe7d3fbc8, 0x21e1cde6, 0xc33707d6, 0xf4d50d87, 0x455a14ed, 0xa9e3e905, 0xfcefa3f8, 0x676f02d9, 0x8d2a4c8a, 0xfffa3942, 0x8771f681, 0x6d9d6122, 0xfde5380c, 0xa4beea44, 0x4bdecfa9, 0xf6bb4b60, 0xbebfbc70, 0x289b7ec6, 0xeaa127fa, 0xd4ef3085, 0x04881d05, 0xd9d4d039, 0xe6db99e5, 0x1fa27cf8, 0xc4ac5665, 0xf4292244, 0x432aff97, 0xab9423a7, 0xfc93a039, 0x655b59c3, 0x8f0ccc92, 0xffeff47d, 0x85845dd1, 0x6fa87e4f, 0xfe2ce6e0, 0xa3014314, 0x4e0811a1, 0xf7537e82, 0xbd3af235, 0x2ad7d2bb, 0xeb86d391]"

definition md5_S :: "nat list" where
  "md5_S = [7, 12, 17, 22, 7, 12, 17, 22, 7, 12, 17, 22, 7, 12, 17, 22,
            5, 9, 14, 20, 5, 9, 14, 20, 5, 9, 14, 20, 5, 9, 14, 20,
            4, 11, 16, 23, 4, 11, 16, 23, 4, 11, 16, 23, 4, 11, 16, 23,
            6, 10, 15, 21, 6, 10, 15, 21, 6, 10, 15, 21, 6, 10, 15, 21]"

definition rotl :: "32 word \<Rightarrow> nat \<Rightarrow> 32 word" where
  "rotl x n = push_bit n x OR drop_bit (32 - n) x"

type_synonym md5_state = "32 word \<times> 32 word \<times> 32 word \<times> 32 word"

definition md5_round :: "32 word list \<Rightarrow> md5_state \<Rightarrow> nat \<Rightarrow> md5_state" where
  "md5_round M st i =
     (case st of (A, B, C, D) \<Rightarrow>
        let (F, g) =
              (if i < 16 then ((B AND C) OR (NOT B AND D), i)
               else if i < 32 then ((D AND B) OR (NOT D AND C), (5 * i + 1) mod 16)
               else if i < 48 then (B XOR C XOR D, (3 * i + 5) mod 16)
               else (C XOR (B OR NOT D), (7 * i) mod 16));
            F = F + A + md5_K ! i + M ! g
        in (D, B + rotl F (md5_S ! i), B, C))"

definition le32 :: "byte list \<Rightarrow> 32 word" where
  "le32 bs = ucast (bs ! 0) OR push_bit 8 (ucast (bs ! 1)) OR push_bit 16 (ucast (bs ! 2))
             OR push_bit 24 (ucast (bs ! 3))"

definition chunk_words :: "byte list \<Rightarrow> 32 word list" where
  "chunk_words chunk = map (\<lambda>j. le32 (take 4 (drop (4 * j) chunk))) [0..<16]"

definition md5_chunk :: "md5_state \<Rightarrow> byte list \<Rightarrow> md5_state" where
  "md5_chunk st chunk =
     (case st of (a0, b0, c0, d0) \<Rightarrow>
        (case foldl (md5_round (chunk_words chunk)) st [0..<64] of (A, B, C, D) \<Rightarrow>
           (a0 + A, b0 + B, c0 + C, d0 + D)))"

definition md5_pad :: "byte list \<Rightarrow> byte list" where
  "md5_pad m =
     (let n = length m;
          zeros = (55 + 64 - n mod 64) mod 64;
          bits = (of_nat (8 * n) :: 64 word)
      in m @ [0x80] @ replicate zeros 0 @ map (\<lambda>j. ucast (drop_bit (8 * j) bits)) [0..<8])"

fun md5_chunks :: "nat \<Rightarrow> md5_state \<Rightarrow> byte list \<Rightarrow> md5_state" where
  "md5_chunks 0 st m = st"
| "md5_chunks (Suc k) st m = md5_chunks k (md5_chunk st (take 64 m)) (drop 64 m)"

definition md5_digest :: "byte list \<Rightarrow> byte list" where
  "md5_digest m =
     (let p = md5_pad m
      in case md5_chunks (length p div 64) (0x67452301, 0xefcdab89, 0x98badcfe, 0x10325476) p of
           (a, b, c, d) \<Rightarrow> concat (map (\<lambda>w. map (\<lambda>j. ucast (drop_bit (8 * j) w)) [0..<4]) [a, b, c, d]))"

definition hexlify :: "byte list \<Rightarrow> string" where
  "hexlify bs = concat (map (\<lambda>b. [hexdigits ! unat (drop_bit 4 b), hexdigits ! unat (b AND 0x0F)]) bs)"

definition md5_hexdigest :: "string \<Rightarrow> string" where
  "md5_hexdigest s = hexlify (md5_digest (encode_utf8 s))"

section \<open>The environment\<close>

text \<open>
  What the program takes from the operating system:
  \<^item> \<open>getmtime\<close> is \<open>os.path.getmtime(os.path.realpath(__file__))\<close>, the
    modification time of the script;
  \<^item> \<open>can_write\<close> tells whether \<open>open(self.config_path, 'w')\<close> succeeds.
\<close>

record env =
  getmtime :: real
  can_write :: bool

section \<open>ClipboardItem\<close>

record ClipboardItem =
  id_item :: string
  content :: content
  type_item :: string
  timestamp :: real

text \<open>\<open>ClipboardItem.__init__\<close>\<close>

definition ClipboardItem_init :: "env \<Rightarrow> content \<Rightarrow> string \<Rightarrow> ClipboardItem" where
  "ClipboardItem_init E c content_type =
     \<lparr> id_item = md5_hexdigest (py_str c),
       content = c,
       type_item = content_type,
       timestamp = getmtime E \<rparr>"

subsection \<open>\<open>base64.b64encode\<close> and \<open>base64.b64decode\<close>\<close>

text \<open>
  \<open>base64.b64encode(s)\<close> is \<open>binascii.b2a_base64(s, newline=False)\<close>: every three
  bytes give four characters of the table, and a last group of one or two bytes is padded
  with \<open>=\<close>. A \<open>str\<close> argument raises \<open>TypeError\<close>.
\<close>

definition table_b2a_base64 :: string where
  "table_b2a_base64 = ''ABCDEFGHIJKLMNOPQRSTUVWXYZabcdefghijklmnopqrstuvwxyz0123456789+/''"

definition b2a :: "byte \<Rightarrow> char" where
  "b2a v = table_b2a_base64 ! unat v"

fun b2a_base64 :: "byte list \<Rightarrow> string" where
  "b2a_base64 [] = []"
| "b2a_base64 [a] =
     [b2a (drop_bit 2 a), b2a (push_bit 4 (a AND 3)), CHR ''='', CHR ''='']"
| "b2a_base64 [a, b] =
     [b2a (drop_bit 2 a), b2a (push_bit 4 (a AND 3) OR drop_bit 4 b),
      b2a (push_bit 2 (b AND 0x0F)), CHR ''='']"
| "b2a_base64 (a # b # c # rest) =
     [b2a (drop_bit 2 a), b2a (push_bit 4 (a AND 3) OR drop_bit 4 b),
      b2a (push_bit 2 (b AND 0x0F) OR drop_bit 6 c), b2a (c AND 0x3F)] @ b2a_base64 rest"

fun b64encode :: "content \<Rightarrow> error + string" where
  "b64encode (Bytes bs) = Inr (b2a_base64 bs)"
| "b64encode (Str s) = Inl TypeError"

text \<open>
  \<open>base64.b64decode(s)\<close> is \<open>binascii.a2b_base64\<close> without strict mode, after a
  \<open>str\<close> argument has been encoded as ASCII (\<open>ValueError\<close> when it cannot be). The
  decoder skips every character outside the table, stops at the padding that completes a
  group, and raises \<open>binascii.Error\<close> when the input ends inside a group.
\<close>

definition table_a2b_base64 :: "char \<Rightarrow> byte option" where
  "table_a2b_base64 ch = map_option of_nat (map_of (zip table_b2a_base64 [0..<64]) ch)"

fun a2b_loop :: "nat \<Rightarrow> byte \<Rightarrow> nat \<Rightarrow> byte list \<Rightarrow> string \<Rightarrow> error + byte list" where
  "a2b_loop quad_pos leftchar pads out [] =
     (if quad_pos \<noteq> 0 then Inl Base64Error else Inr out)"
| "a2b_loop quad_pos leftchar pads out (this_ch # rest) =
     (if this_ch = CHR ''='' then
        (if 2 \<le> quad_pos \<and> 4 \<le> quad_pos + (pads + 1) then Inr out
         else a2b_loop quad_pos leftchar (if 2 \<le> quad_pos then pads + 1 else pads) out rest)
      else
        (case table_a2b_base64 this_ch of
           None \<Rightarrow> a2b_loop quad_pos leftchar pads out rest
         | Some v \<Rightarrow>
             (if quad_pos = 0 then a2b_loop 1 v 0 out rest
              else if quad_pos = 1 then
                a2b_loop 2 (v AND 0x0F) 0 (out @ [push_bit 2 leftchar OR drop_bit 4 v]) rest
              else if quad_pos = 2 then
                a2b_loop 3 (v AND 0x03) 0 (out @ [push_bit 4 leftchar OR drop_bit 2 v]) rest
              else a2b_loop 0 0 0 (out @ [push_bit 6 leftchar OR v]) rest)))"

definition a2b_base64 :: "string \<Rightarrow> error + byte list" where
  "a2b_base64 s = a2b_loop 0 0 0 [] s"

definition is_ascii :: "char \<Rightarrow> bool" where
  "is_ascii ch = ((of_char ch :: nat) < 128)"

fun b64decode :: "content \<Rightarrow> error + byte list" where
  "b64decode (Str s) = (if list_all is_ascii s then a2b_base64 s else Inl ValueError)"
| "b64decode (Bytes bs) = a2b_base64 (map byte_char bs)"

section \<open>The dictionary of an item and the persisted document\<close>

text \<open>
  The dictionary that \<open>to_dict\<close> builds and \<open>from_dict\<close> reads has the keys \<open>id\<close>,
  \<open>content\<close>, \<open>type\<close> and \<open>timestamp\<close>; a key may be missing from a dictionary read
  from the file. The document has the keys \<open>history\<close> and \<open>max_items\<close>. The values
  have the types the program writes: documents whose values have other JSON types are
  outside this model.
\<close>

record item_dict =
  d_id :: "string option"
  d_content :: "content option"
  d_type :: "string option"
  d_timestamp :: "real option"

record config =
  c_history :: "item_dict list option"
  c_max_items :: "int option"

text \<open>
  The file at \<open>config_path\<close>: absent, not parseable as JSON, or a JSON document.
\<close>

datatype file_content = NoFile | Garbage | Json config

text \<open>\<open>ClipboardItem.to_dict\<close>\<close>

definition to_dict :: "ClipboardItem \<Rightarrow> error + item_dict" where
  "to_dict item =
     (if type_item item = ''image'' then
        (case b64encode (content item) of
           Inl e \<Rightarrow> Inl e
         | Inr s \<Rightarrow> Inr \<lparr> d_id = Some (id_item item), d_content = Some (Str s),
                        d_type = Some (type_item item), d_timestamp = Some (timestamp item) \<rparr>)
      else Inr \<lparr> d_id = Some (id_item item), d_content = Some (content item),
                 d_type = Some (type_item item), d_timestamp = Some (timestamp item) \<rparr>)"

text \<open>\<open>ClipboardItem.from_dict\<close>: a missing \<open>content\<close>, \<open>type\<close> or \<open>id\<close> raises
  \<open>KeyError\<close>, a missing \<open>timestamp\<close> keeps the one of \<open>__init__\<close>.\<close>

definition from_dict :: "env \<Rightarrow> item_dict \<Rightarrow> error + ClipboardItem" where
  "from_dict E data =
     (case d_content data of
        None \<Rightarrow> Inl KeyError
      | Some c \<Rightarrow>
     (case d_type data of
        None \<Rightarrow> Inl KeyError
      | Some t \<Rightarrow>
     (let item = ClipboardItem_init E c t in
     (case d_id data of
        None \<Rightarrow> Inl KeyError
      | Some i \<Rightarrow>
     (let item = item\<lparr> id_item := i \<rparr>;
          item = item\<lparr> timestamp := (case d_timestamp data of None \<Rightarrow> timestamp item | Some ts \<Rightarrow> ts) \<rparr>
      in if type_item item = ''image'' then
           (case b64decode c of
              Inl e \<Rightarrow> Inl e
            | Inr bs \<Rightarrow> Inr (item\<lparr> content := Bytes bs \<rparr>))
         else Inr item)))))"

text \<open>A list comprehension whose body may raise: the first exception ends it.\<close>

fun comprehension :: "('a \<Rightarrow> error + 'b) \<Rightarrow> 'a list \<Rightarrow> error + 'b list" where
  "comprehension f [] = Inr []"
| "comprehension f (x # xs) =
     (case f x of
        Inl e \<Rightarrow> Inl e
      | Inr y \<Rightarrow> (case comprehension f xs of Inl e \<Rightarrow> Inl e | Inr ys \<Rightarrow> Inr (y # ys)))"

section \<open>ClipboardManager\<close>

text \<open>
  The state of the manager is its two attributes \<open>max_items\<close> and \<open>history\<close>, together
  with the file at \<open>config_path\<close>. The widgets, the tray, the key bindings and the timer
  are not modelled; of the list widget, only whether filling it raises.
\<close>

record manager =
  max_items :: int
  history :: "ClipboardItem list"
  config_file :: file_content

subsection \<open>Python list operations\<close>

text \<open>\<open>xs[:m]\<close>: a negative \<open>m\<close> counts from the end.\<close>

definition slice_to :: "'a list \<Rightarrow> int \<Rightarrow> 'a list" where
  "slice_to xs m = (if 0 \<le> m then take (nat m) xs else take (nat (int (length xs) + m)) xs)"

text \<open>\<open>xs[i]\<close>: a negative \<open>i\<close> counts from the end, an index out of range raises
  \<open>IndexError\<close>.\<close>

definition getitem :: "'a list \<Rightarrow> int \<Rightarrow> error + 'a" where
  "getitem xs i =
     (if 0 \<le> i \<and> i < int (length xs) then Inr (xs ! nat i)
      else if - int (length xs) \<le> i \<and> i < 0 then Inr (xs ! nat (int (length xs) + i))
      else Inl IndexError)"

subsection \<open>\<open>save_config\<close> and \<open>load_config\<close>\<close>

text \<open>
  \<open>save_config\<close> builds the document, opens the file for writing and dumps the document.
  An exception of \<open>to_dict\<close> leaves the file as it was, and so does a failing \<open>open\<close>
  (\<open>OSError\<close>). \<open>json.dump\<close> raises \<open>TypeError\<close> on a \<open>bytes\<close> value, after the file
  has been truncated. No exception is caught.
\<close>

definition json_serializable :: "item_dict \<Rightarrow> bool" where
  "json_serializable d = (case d_content d of Some (Bytes bs) \<Rightarrow> False | _ \<Rightarrow> True)"

definition save_config :: "env \<Rightarrow> manager \<Rightarrow> unit outcome \<times> manager" where
  "save_config E s =
     (case comprehension to_dict (history s) of
        Inl e \<Rightarrow> (Raised e, s)
      | Inr ds \<Rightarrow>
          if \<not> can_write E then (Raised OSError, s)
          else if \<not> list_all json_serializable ds then
            (Raised TypeError, s\<lparr> config_file := Garbage \<rparr>)
          else (Returned (),
                s\<lparr> config_file := Json \<lparr> c_history = Some ds, c_max_items = Some (max_items s) \<rparr> \<rparr>))"

text \<open>
  \<open>load_config\<close> catches \<open>FileNotFoundError\<close> and \<open>json.JSONDecodeError\<close> only: an
  exception of \<open>from_dict\<close> propagates, before either attribute is assigned.
\<close>

definition load_config :: "env \<Rightarrow> manager \<Rightarrow> unit outcome \<times> manager" where
  "load_config E s =
     (case config_file s of
        NoFile \<Rightarrow> (Returned (), s\<lparr> history := [] \<rparr>)
      | Garbage \<Rightarrow> (Returned (), s\<lparr> history := [] \<rparr>)
      | Json cfg \<Rightarrow>
          (case comprehension (from_dict E) (case c_history cfg of None \<Rightarrow> [] | Some ds \<Rightarrow> ds) of
             Inl e \<Rightarrow> (Raised e, s)
           | Inr items \<Rightarrow>
               (Returned (),
                s\<lparr> history := items,
                   max_items := (case c_max_items cfg of None \<Rightarrow> 10 | Some n \<Rightarrow> n) \<rparr>)))"

text \<open>\<open>ClipboardManager.__init__\<close>, as far as the history is concerned: the attributes
  are set, then the file that is there is loaded.\<close>

definition ClipboardManager_init :: "env \<Rightarrow> int \<Rightarrow> file_content \<Rightarrow> unit outcome \<times> manager" where
  "ClipboardManager_init E n f = load_config E \<lparr> max_items = n, history = [], config_file = f \<rparr>"

subsection \<open>\<open>add_item\<close> and \<open>clear_history\<close>\<close>

text \<open>
  \<open>populate_list\<close> makes a list entry of every item of the history: it shows a text
  (the whole of it, or its first 50 characters and three dots) and makes an icon of the
  bytes of an image. A text item that holds \<open>bytes\<close> and an image item that holds a
  \<open>str\<close> raise \<open>TypeError\<close>; an item of another type gets an empty entry.
\<close>

definition list_entry :: "ClipboardItem \<Rightarrow> unit outcome" where
  "list_entry item =
     (if type_item item = ''text'' then
        (case content item of Str t \<Rightarrow> Returned () | Bytes bs \<Rightarrow> Raised TypeError)
      else if type_item item = ''image'' then
        (case content item of Bytes bs \<Rightarrow> Returned () | Str t \<Rightarrow> Raised TypeError)
      else Returned ())"

fun list_entries :: "ClipboardItem list \<Rightarrow> unit outcome" where
  "list_entries [] = Returned ()"
| "list_entries (item # rest) =
     (case list_entry item of Raised e \<Rightarrow> Raised e | Returned u \<Rightarrow> list_entries rest)"

definition populate_list :: "manager \<Rightarrow> unit outcome" where
  "populate_list s = list_entries (history s)"

text \<open>
  \<open>add_item\<close> returns \<open>None\<close> on both of its paths: at once when an item of the history
  has the id of the new one, and after \<open>populate_list\<close> and \<open>save_config\<close> otherwise.
  An exception of \<open>populate_list\<close> ends the call before \<open>save_config\<close>.
\<close>

definition add_item :: "env \<Rightarrow> manager \<Rightarrow> content \<Rightarrow> string \<Rightarrow> unit outcome \<times> manager" where
  "add_item E s c content_type =
     (let item = ClipboardItem_init E c content_type in
      if list_ex (\<lambda>existing. id_item existing = id_item item) (history s) then (Returned (), s)
      else
        let s = s\<lparr> history := item # history s \<rparr>;
            s = (if int (length (history s)) > max_items s
                 then s\<lparr> history := slice_to (history s) (max_items s) \<rparr> else s)
        in (case populate_list s of
              Raised e \<Rightarrow> (Raised e, s)
            | Returned u \<Rightarrow> save_config E s))"

definition clear_history :: "env \<Rightarrow> manager \<Rightarrow> unit outcome \<times> manager" where
  "clear_history E s = save_config E (s\<lparr> history := [] \<rparr>)"

subsection \<open>\<open>check_clipboard\<close>\<close>

text \<open>
  What the timer finds on the clipboard: a text, an image (its RGBA bytes) or neither.
  A text goes first.
\<close>

record mime_data =
  mime_text :: "string option"
  mime_image :: "byte list option"

definition check_clipboard :: "env \<Rightarrow> manager \<Rightarrow> mime_data \<Rightarrow> unit outcome \<times> manager" where
  "check_clipboard E s m =
     (case mime_text m of
        Some t \<Rightarrow> add_item E s (Str t) ''text''
      | None \<Rightarrow>
          (case mime_image m of
             Some image_bytes \<Rightarrow> add_item E s (Bytes image_bytes) ''image''
           | None \<Rightarrow> (Returned (), s)))"

subsection \<open>\<open>paste_last_item\<close> and \<open>restore_item\<close>\<close>

text \<open>
  What a call puts on the system clipboard: a text, or the image made from the bytes.
  \<open>None\<close> when the call leaves the clipboard alone. \<open>paste_last_item\<close> hands the
  content to Qt, where a content that is not of the Python type the call takes raises
  \<open>TypeError\<close>. The key press that \<open>paste_last_item\<close> sends after a text is not
  modelled.
\<close>

datatype clip = SetText string | SetImage "byte list"

definition put_on_clipboard :: "ClipboardItem \<Rightarrow> clip option outcome" where
  "put_on_clipboard item =
     (if type_item item = ''text'' then
        (case content item of Str t \<Rightarrow> Returned (Some (SetText t)) | Bytes bs \<Rightarrow> Raised TypeError)
      else if type_item item = ''image'' then
        (case content item of Bytes bs \<Rightarrow> Returned (Some (SetImage bs)) | Str t \<Rightarrow> Raised TypeError)
      else Returned None)"

definition paste_last_item :: "manager \<Rightarrow> clip option outcome \<times> manager" where
  "paste_last_item s =
     (case history s of
        [] \<Rightarrow> (Returned None, s)
      | last_item # rest \<Rightarrow> (put_on_clipboard last_item, s))"

text \<open>
  \<open>restore_item\<close>: \<open>index\<close> is the row of the item in the list widget. A text goes
  through \<open>pyperclip.copy\<close>, which copies the \<open>str\<close> of what it is given (pyperclip
  1.11); an image goes to Qt as in \<open>paste_last_item\<close>.
\<close>

definition copy_to_clipboard :: "ClipboardItem \<Rightarrow> clip option outcome" where
  "copy_to_clipboard item =
     (if type_item item = ''text'' then Returned (Some (SetText (py_str (content item))))
      else if type_item item = ''image'' then
        (case content item of Bytes bs \<Rightarrow> Returned (Some (SetImage bs)) | Str t \<Rightarrow> Raised TypeError)
      else Returned None)"

definition restore_item :: "manager \<Rightarrow> int \<Rightarrow> clip option outcome \<times> manager" where
  "restore_item s index =
     (case getitem (history s) index of
        Inl e \<Rightarrow> (Raised e, s)
      | Inr selected_item \<Rightarrow> (copy_to_clipboard selected_item, s))"

section \<open>Properties of a history store\<close>

text \<open>
  The invariants of the history store, as predicates on the state: the history holds at
  most \<open>max_items\<close> items; the id of an item is the digest of its content; a text item
  holds a \<open>str\<close> and an image item holds \<open>bytes\<close>.
\<close>

definition within_capacity :: "manager \<Rightarrow> bool" where
  "within_capacity s = (int (length (history s)) \<le> max_items s)"

definition fingerprint :: "content \<Rightarrow> string" where
  "fingerprint c = md5_hexdigest (py_str c)"

definition fingerprinted :: "ClipboardItem \<Rightarrow> bool" where
  "fingerprinted item = (id_item item = fingerprint (content item))"

definition entry_ok :: "ClipboardItem \<Rightarrow> bool" where
  "entry_ok item =
     (case content item of
        Str t \<Rightarrow> type_item item = ''text''
      | Bytes bs \<Rightarrow> type_item item = ''image'')"

text \<open>The ids of the history, and whether an id occurs in it.\<close>

definition ids :: "manager \<Rightarrow> string list" where
  "ids s = map id_item (history s)"

definition known :: "manager \<Rightarrow> content \<Rightarrow> bool" where
  "known s c = (fingerprint c \<in> set (ids s))"

text \<open>
  A sequence of calls of \<open>add_item\<close>, each on the state the call before has left. The
  state after a call is the one it has reached when it returns or raises.
\<close>

definition add_items :: "env \<Rightarrow> manager \<Rightarrow> (content \<times> string) list \<Rightarrow> manager" where
  "add_items E s ps = foldl (\<lambda>s (c, t). snd (add_item E s c t)) s ps"

text \<open>
  The calls that reach the history, and a run of them. \<open>Restart\<close> ends the process and
  starts a new one on the file the old one has left, with the default \<open>max_items\<close> of
  \<open>__init__\<close>. The state after a call that raises is the one it has reached at the
  raise.
\<close>

datatype event =
  AddItem env content string
| ClearHistory env
| PasteLastItem
| RestoreItem int
| Restart env

fun step :: "manager \<Rightarrow> event \<Rightarrow> manager" where
  "step s (AddItem E c t) = snd (add_item E s c t)"
| "step s (ClearHistory E) = snd (clear_history E s)"
| "step s PasteLastItem = snd (paste_last_item s)"
| "step s (RestoreItem i) = snd (restore_item s i)"
| "step s (Restart E) = snd (ClipboardManager_init E 10 (config_file s))"

definition run :: "manager \<Rightarrow> event list \<Rightarrow> manager" where
  "run s evs = foldl step s evs"

text \<open>A file whose document, if it has one, lists at most \<open>max_items\<close> items; 10 is
  what \<open>load_config\<close> takes when the document has no \<open>max_items\<close>.\<close>

definition file_within_capacity :: "file_content \<Rightarrow> bool" where
  "file_within_capacity f =
     (case f of
        Json cfg \<Rightarrow>
          int (length (case c_history cfg of None \<Rightarrow> [] | Some ds \<Rightarrow> ds))
            \<le> (case c_max_items cfg of None \<Rightarrow> 10 | Some m \<Rightarrow> m)
      | _ \<Rightarrow> True)"

text \<open>The bound on the history and on the document of the file, together: what every
  call keeps.\<close>

definition store_ok :: "manager \<Rightarrow> bool" where
  "store_ok s = (within_capacity s \<and> file_within_capacity (config_file s))"

section \<open>Concrete stores and inputs\<close>

text \<open>
  Two environments, one where the file can be written and one where it cannot; an empty
  store of a given capacity; the four bytes of one RGBA pixel and the text that is the
  \<open>str\<close> of these bytes; a store that holds the pixel as an image and one that holds
  a text and the pixel; two texts; a dictionary whose id is not the digest of its content;
  a document with two items and \<open>max_items\<close> 1, the store that \<open>load_config\<close> makes
  of it, and a document with \<open>max_items\<close> 0; a document with two items and
  \<open>max_items\<close> -1 and the store that \<open>load_config\<close> makes of it; a session of calls.
\<close>

definition env_rw :: env where
  "env_rw = \<lparr> getmtime = 1700000000, can_write = True \<rparr>"

definition env_ro :: env where
  "env_ro = \<lparr> getmtime = 1700000000, can_write = False \<rparr>"

definition empty_store :: "int \<Rightarrow> manager" where
  "empty_store n = \<lparr> max_items = n, history = [], config_file = NoFile \<rparr>"

definition pixel :: "byte list" where
  "pixel = [0x61, 0x62, 0x63, 0x64]"

definition pixel_text :: string where
  "pixel_text = [CHR ''b'', CHR 0x27, CHR ''a'', CHR ''b'', CHR ''c'', CHR ''d'', CHR 0x27]"

definition image_store :: manager where
  "image_store = \<lparr> max_items = 10, history = [ClipboardItem_init env_rw (Bytes pixel) ''image''],
                     config_file = NoFile \<rparr>"

definition hello_world :: "(content \<times> string) list" where
  "hello_world = [(Str ''hello'', ''text''), (Str ''world'', ''text'')]"

definition mixed_store :: manager where
  "mixed_store =
     \<lparr> max_items = 7,
       history = [ClipboardItem_init env_rw (Str ''hello'') ''text'',
                  ClipboardItem_init env_rw (Bytes pixel) ''image''],
       config_file = NoFile \<rparr>"


definition text_dict :: "string \<Rightarrow> string \<Rightarrow> item_dict" where
  "text_dict i t = \<lparr> d_id = Some i, d_content = Some (Str t), d_type = Some ''text'',
                      d_timestamp = Some 5 \<rparr>"

definition crowded_file :: file_content where
  "crowded_file = Json \<lparr> c_history = Some [text_dict ''0001'' ''one'', text_dict ''0002'' ''two''],
                          c_max_items = Some 1 \<rparr>"

definition zero_capacity_file :: file_content where
  "zero_capacity_file = Json \<lparr> c_history = Some [text_dict ''0001'' ''one''], c_max_items = Some 0 \<rparr>"

definition crowded_store :: manager where
  "crowded_store =
     \<lparr> max_items = 1,
       history = [\<lparr> id_item = ''0001'', content = Str ''one'', type_item = ''text'', timestamp = 5 \<rparr>,
                  \<lparr> id_item = ''0002'', content = Str ''two'', type_item = ''text'', timestamp = 5 \<rparr>],
       config_file = crowded_file \<rparr>"

definition negative_file :: file_content where
  "negative_file = Json \<lparr> c_history = Some [text_dict ''0001'' ''one'', text_dict ''0002'' ''two''],
                           c_max_items = Some (- 1) \<rparr>"

definition negative_store :: manager where
  "negative_store =
     \<lparr> max_items = - 1,
       history = [\<lparr> id_item = ''0001'', content = Str ''one'', type_item = ''text'', timestamp = 5 \<rparr>,
                  \<lparr> id_item = ''0002'', content = Str ''two'', type_item = ''text'', timestamp = 5 \<rparr>],
       config_file = negative_file \<rparr>"

definition session :: "event list" where
  "session = [AddItem env_rw (Str ''hello'') ''text'', ClearHistory env_ro, PasteLastItem,
              AddItem env_ro (Bytes pixel) ''image'', Restart env_rw, RestoreItem 0]"

section \<open>Base64: decoding inverts encoding\<close>

lemma byte_eqI:
  fixes x y :: byte
  assumes "bit x 0 = bit y 0" "bit x 1 = bit y 1" "bit x 2 = bit y 2" "bit x 3 = bit y 3"
    "bit x 4 = bit y 4" "bit x 5 = bit y 5" "bit x 6 = bit y 6" "bit x 7 = bit y 7"
  shows "x = y"
proof (rule bit_word_eqI)
  fix n assume "n < LENGTH(8)"
  then have "n \<in> {0, 1, 2, 3, 4, 5, 6, 7}"
    by auto
  then show "bit x n = bit y n"
    using assms by (elim insertE emptyE) simp_all
qed

lemma bits1: "push_bit 2 (drop_bit 2 a) OR drop_bit 4 (push_bit 4 (a AND 3) OR drop_bit 4 b) = (a::byte)"
  by (rule byte_eqI) (auto simp: bit_simps dest: bit_imp_le_length)
lemma bits1': "push_bit 2 (drop_bit 2 a) OR drop_bit 4 (push_bit 4 (a AND 3)) = (a::byte)"
  by (rule byte_eqI) (auto simp: bit_simps dest: bit_imp_le_length)
lemma bits2: "push_bit 4 ((push_bit 4 (a AND 3) OR drop_bit 4 b) AND 0x0F) OR drop_bit 2 (push_bit 2 (b AND 0x0F) OR drop_bit 6 c) = (b::byte)"
  by (rule byte_eqI) (auto simp: bit_simps dest: bit_imp_le_length)
lemma bits2': "push_bit 4 ((push_bit 4 (a AND 3) OR drop_bit 4 b) AND 0x0F) OR drop_bit 2 (push_bit 2 (b AND 0x0F)) = (b::byte)"
  by (rule byte_eqI) (auto simp: bit_simps dest: bit_imp_le_length)
lemma bits3: "push_bit 6 ((push_bit 2 (b AND 0x0F) OR drop_bit 6 c) AND 0x03) OR (c AND 0x3F) = (c::byte)"
  by (rule byte_eqI) (auto simp: bit_simps dest: bit_imp_le_length)

lemma six1: "drop_bit 2 a AND 0x3F = drop_bit 2 (a::byte)"
  by (rule byte_eqI) (auto simp: bit_simps dest: bit_imp_le_length)
lemma six2: "(push_bit 4 (a AND 3) OR drop_bit 4 b) AND 0x3F = push_bit 4 (a AND 3) OR drop_bit 4 (b::byte)"
  by (rule byte_eqI) (auto simp: bit_simps dest: bit_imp_le_length)
lemma six2': "(push_bit 4 (a AND 3)) AND 0x3F = push_bit 4 (a AND (3::byte))"
  by (rule byte_eqI) (auto simp: bit_simps dest: bit_imp_le_length)
lemma six3: "(push_bit 2 (b AND 0x0F) OR drop_bit 6 c) AND 0x3F = push_bit 2 (b AND 0x0F) OR drop_bit 6 (c::byte)"
  by (rule byte_eqI) (auto simp: bit_simps dest: bit_imp_le_length)
lemma six3': "(push_bit 2 (b AND 0x0F)) AND 0x3F = push_bit 2 (b AND (0x0F::byte))"
  by (rule byte_eqI) (auto simp: bit_simps dest: bit_imp_le_length)
lemma six4: "(c AND 0x3F) AND 0x3F = c AND (0x3F::byte)"
  by (rule byte_eqI) (auto simp: bit_simps dest: bit_imp_le_length)

lemma distinct_table: "distinct table_b2a_base64"
  by (simp add: table_b2a_base64_def)

lemma length_table: "length table_b2a_base64 = 64"
  by (simp add: table_b2a_base64_def)

lemma pad_not_in_table: "CHR ''='' \<notin> set table_b2a_base64"
  by (simp add: table_b2a_base64_def)

lemma sextet:
  assumes "v AND 0x3F = (v::byte)"
  shows "table_a2b_base64 (b2a v) = Some v" and "b2a v \<noteq> CHR ''=''"
proof -
  have "unat (v AND 0x3F) \<le> unat (0x3F :: byte)"
    using word_and_le1 [of v "0x3F"] by (simp only: word_le_nat_alt)
  then have lt: "unat v < 64" using assms by simp
  have "map_of (zip table_b2a_base64 [0..<64]) (table_b2a_base64 ! unat v) = Some ([0..<64] ! unat v)"
    by (rule map_of_zip_nth) (use lt in \<open>simp_all add: distinct_table length_table\<close>)
  then show "table_a2b_base64 (b2a v) = Some v"
    using lt by (simp add: table_a2b_base64_def b2a_def)
  have "b2a v \<in> set table_b2a_base64"
    unfolding b2a_def using lt by (simp add: length_table)
  then show "b2a v \<noteq> CHR ''=''"
    using pad_not_in_table by auto
qed


lemma a2b_quad:
  assumes "v1 AND 0x3F = v1" "v2 AND 0x3F = v2" "v3 AND 0x3F = v3" "v4 AND 0x3F = v4"
  shows "a2b_loop 0 l p out (b2a v1 # b2a v2 # b2a v3 # b2a v4 # rest) =
         a2b_loop 0 0 0 (out @ [push_bit 2 v1 OR drop_bit 4 v2,
           push_bit 4 (v2 AND 0x0F) OR drop_bit 2 v3, push_bit 6 (v3 AND 0x03) OR v4]) rest"
  by (simp add: sextet [OF assms(1)] sextet [OF assms(2)] sextet [OF assms(3)] sextet [OF assms(4)])

lemma a2b_pad1:
  assumes "v1 AND 0x3F = v1" "v2 AND 0x3F = v2" "v3 AND 0x3F = v3"
  shows "a2b_loop 0 l p out [b2a v1, b2a v2, b2a v3, CHR ''=''] =
         Inr (out @ [push_bit 2 v1 OR drop_bit 4 v2, push_bit 4 (v2 AND 0x0F) OR drop_bit 2 v3])"
  by (simp add: sextet [OF assms(1)] sextet [OF assms(2)] sextet [OF assms(3)])

lemma a2b_pad2:
  assumes "v1 AND 0x3F = v1" "v2 AND 0x3F = v2"
  shows "a2b_loop 0 l p out [b2a v1, b2a v2, CHR ''='', CHR ''=''] =
         Inr (out @ [push_bit 2 v1 OR drop_bit 4 v2])"
  by (simp add: sextet [OF assms(1)] sextet [OF assms(2)])

lemma a2b_loop_b2a: "a2b_loop 0 0 0 out (b2a_base64 bs) = Inr (out @ bs)"
proof (induction bs arbitrary: out rule: b2a_base64.induct)
  case 1
  show ?case by simp
next
  case (2 a)
  show ?case
    by (simp only: b2a_base64.simps a2b_pad2 [OF six1 six2'] bits1')
next
  case (3 a b)
  show ?case
    by (simp only: b2a_base64.simps a2b_pad1 [OF six1 six2 six3'] bits1 bits2' append.simps)
next
  case (4 a b c rest)
  show ?case
    by (simp only: b2a_base64.simps append.simps a2b_quad [OF six1 six2 six3 six4]
        bits1 bits2 bits3 4 append_assoc)
qed

section \<open>What the operations do to the history\<close>

lemma save_config_history [simp]: "history (snd (save_config E s)) = history s"
  by (simp add: save_config_def split: sum.splits)

lemma save_config_max_items [simp]: "max_items (snd (save_config E s)) = max_items s"
  by (simp add: save_config_def split: sum.splits)

lemma list_ex_ids: "list_ex (\<lambda>existing. id_item existing = i) (history s) = (i \<in> set (ids s))"
  by (auto simp: ids_def list_ex_iff)

lemma add_item_known: "known s c \<Longrightarrow> add_item E s c t = (Returned (), s)"
  by (simp add: add_item_def Let_def list_ex_ids known_def fingerprint_def ClipboardItem_init_def)

lemma add_item_max_items [simp]: "max_items (snd (add_item E s c t)) = max_items s"
  by (simp add: add_item_def Let_def split: outcome.splits)

lemma slice_to_take: "0 \<le> m \<Longrightarrow> slice_to xs m = take (nat m) xs"
  by (simp add: slice_to_def)

lemma add_item_new:
  assumes "\<not> known s c" "0 \<le> max_items s"
  shows "history (snd (add_item E s c t)) = take (nat (max_items s)) (ClipboardItem_init E c t # history s)"
proof -
  have "\<not> list_ex (\<lambda>existing. id_item existing = id_item (ClipboardItem_init E c t)) (history s)"
    using assms(1) by (simp add: list_ex_ids known_def fingerprint_def ClipboardItem_init_def)
  moreover have "\<not> max_items s < 1 + int (length (history s)) \<Longrightarrow>
      take (nat (max_items s)) (ClipboardItem_init E c t # history s) = ClipboardItem_init E c t # history s"
    by (intro take_all) simp
  ultimately show ?thesis
    using assms(2) by (simp add: add_item_def Let_def slice_to_take split: outcome.splits)
qed

lemma clear_history_history [simp]: "history (snd (clear_history E s)) = []"
  by (simp add: clear_history_def)

lemma known_after_add_item:
  assumes "1 \<le> max_items s"
  shows "known (snd (add_item E s c t)) c"
proof (cases "known s c")
  case True
  then show ?thesis by (simp add: add_item_known)
next
  case False
  obtain k where k: "nat (max_items s) = Suc k"
    using assms by (cases "nat (max_items s)") auto
  have "history (snd (add_item E s c t)) = ClipboardItem_init E c t # take k (history s)"
    using add_item_new [OF False, of E t] assms k by simp
  then show ?thesis
    by (simp add: known_def ids_def fingerprint_def ClipboardItem_init_def)
qed

lemma ids_after_add_item:
  "set (ids (snd (add_item E s c t))) \<subseteq> insert (fingerprint c) (set (ids s))"
proof (cases "known s c")
  case True
  then show ?thesis by (auto simp: add_item_known)
next
  case False
  have "\<not> list_ex (\<lambda>existing. id_item existing = id_item (ClipboardItem_init E c t)) (history s)"
    using False by (simp add: list_ex_ids known_def fingerprint_def ClipboardItem_init_def)
  then have "set (history (snd (add_item E s c t))) \<subseteq> insert (ClipboardItem_init E c t) (set (history s))"
    by (auto simp: add_item_def Let_def slice_to_def dest: in_set_takeD split: outcome.splits)
  then show ?thesis
    by (auto simp: ids_def fingerprint_def ClipboardItem_init_def)
qed

lemma distinct_ids_after_add_item:
  assumes "distinct (ids s)" "0 \<le> max_items s"
  shows "distinct (ids (snd (add_item E s c t)))"
proof (cases "known s c")
  case True
  then show ?thesis using assms by (simp add: add_item_known)
next
  case False
  have "distinct (map id_item (ClipboardItem_init E c t # history s))"
    using assms(1) False by (simp add: ids_def known_def fingerprint_def ClipboardItem_init_def)
  then have "distinct (take (nat (max_items s)) (map id_item (ClipboardItem_init E c t # history s)))"
    by (rule distinct_take)
  then have "distinct (map id_item (take (nat (max_items s)) (ClipboardItem_init E c t # history s)))"
    by (simp only: take_map)
  then show ?thesis
    using add_item_new [OF False assms(2), of E t] by (simp only: ids_def)
qed

lemma take_append_take: "take n (xs @ take n ys) = take n (xs @ ys)"
  by (simp add: min_def)

lemma add_items_Cons: "add_items E s ((c, t) # ps) = add_items E (snd (add_item E s c t)) ps"
  by (simp add: add_items_def)

lemma distinct_map_Cons_neq:
  assumes "distinct (map f (p # ps))" "q \<in> set ps"
  shows "f q \<noteq> f p"
proof
  assume "f q = f p"
  then have "f p \<in> f ` set ps"
    using assms(2) by (metis imageI)
  then show False
    using assms(1) by simp
qed

lemma fresh_after_add_item:
  assumes "fingerprint d \<noteq> fingerprint c" "\<not> known s d"
  shows "\<not> known (snd (add_item E s c t)) d"
  using assms ids_after_add_item [of E s c t] by (auto simp: known_def)

lemma within_capacity_nonneg: "within_capacity s \<Longrightarrow> 0 \<le> max_items s"
  by (simp add: within_capacity_def)

lemma within_capacity_after_add_item:
  assumes "0 \<le> max_items s" "\<not> known s c"
  shows "within_capacity (snd (add_item E s c t))"
  using assms(1) by (simp add: within_capacity_def add_item_new [OF assms(2,1)])

lemma add_items_history_bounded:
  assumes "within_capacity s"
    and "distinct (map (\<lambda>p. fingerprint (fst p)) ps)"
    and "\<forall>p\<in>set ps. \<not> known s (fst p)"
  shows "history (add_items E s ps) =
         take (nat (max_items s)) (rev (map (\<lambda>p. ClipboardItem_init E (fst p) (snd p)) ps) @ history s)"
  using assms
proof (induction ps arbitrary: s)
  case Nil
  then show ?case
    by (simp add: add_items_def within_capacity_def)
next
  case (Cons p ps)
  obtain c t where p: "p = (c, t)" by (cases p)
  let ?s1 = "snd (add_item E s c t)"
  have pos: "0 \<le> max_items s" using Cons.prems(1) by (rule within_capacity_nonneg)
  have new: "\<not> known s c" using Cons.prems(3) p by simp
  have h1: "history ?s1 = take (nat (max_items s)) (ClipboardItem_init E c t # history s)"
    using add_item_new [OF new pos] .
  have fresh: "\<forall>q\<in>set ps. \<not> known ?s1 (fst q)"
  proof
    fix q assume q: "q \<in> set ps"
    have "fingerprint (fst q) \<noteq> fingerprint (fst p)"
      using Cons.prems(2) q by (rule distinct_map_Cons_neq)
    then show "\<not> known ?s1 (fst q)"
      using Cons.prems(3) q p by (intro fresh_after_add_item) simp_all
  qed
  have "history (add_items E ?s1 ps) =
        take (nat (max_items ?s1)) (rev (map (\<lambda>p. ClipboardItem_init E (fst p) (snd p)) ps) @ history ?s1)"
    using within_capacity_after_add_item [OF pos new] Cons.prems(2) fresh
    by (intro Cons.IH) simp_all
  then show ?case
    by (simp add: p add_items_Cons h1 take_append_take)
qed

lemma add_items_history:
  assumes "0 \<le> max_items s"
    and "ps \<noteq> [] \<or> within_capacity s"
    and "distinct (map (\<lambda>p. fingerprint (fst p)) ps)"
    and "\<forall>p\<in>set ps. \<not> known s (fst p)"
  shows "history (add_items E s ps) =
         take (nat (max_items s)) (rev (map (\<lambda>p. ClipboardItem_init E (fst p) (snd p)) ps) @ history s)"
proof (cases ps)
  case Nil
  then show ?thesis
    using assms(2) add_items_history_bounded [of s ps E] by simp
next
  case (Cons p qs)
  obtain c t where p: "p = (c, t)" by (cases p)
  let ?s1 = "snd (add_item E s c t)"
  have new: "\<not> known s c" using assms(4) Cons p by simp
  have h1: "history ?s1 = take (nat (max_items s)) (ClipboardItem_init E c t # history s)"
    using add_item_new [OF new assms(1)] .
  have fresh: "\<forall>q\<in>set qs. \<not> known ?s1 (fst q)"
  proof
    fix q assume q: "q \<in> set qs"
    have "fingerprint (fst q) \<noteq> fingerprint (fst p)"
      using assms(3) q unfolding Cons by (rule distinct_map_Cons_neq)
    then show "\<not> known ?s1 (fst q)"
      using assms(4) q p Cons by (intro fresh_after_add_item) simp_all
  qed
  have "history (add_items E ?s1 qs) =
        take (nat (max_items ?s1)) (rev (map (\<lambda>p. ClipboardItem_init E (fst p) (snd p)) qs) @ history ?s1)"
    using within_capacity_after_add_item [OF assms(1) new] assms(3) fresh Cons
    by (intro add_items_history_bounded) simp_all
  then show ?thesis
    by (simp add: Cons p add_items_Cons h1 take_append_take)
qed

lemma bytes_repr_pixel: "bytes_repr pixel = pixel_text"
  by code_simp

lemma history_after_add_item_subset:
  "set (history (snd (add_item E s c t))) \<subseteq> insert (ClipboardItem_init E c t) (set (history s))"
  by (auto simp: add_item_def Let_def slice_to_def dest: in_set_takeD split: outcome.splits)

lemma count_list_distinct: "distinct xs \<Longrightarrow> x \<in> set xs \<Longrightarrow> count_list xs x = 1"
  by (induction xs) auto

lemma count_list_map_cong:
  "(\<And>x. x \<in> set xs \<Longrightarrow> (f x = a) = (g x = b)) \<Longrightarrow>
   count_list (map f xs) a = count_list (map g xs) b"
  by (induction xs) auto

lemma md5_hexdigest_hello: "md5_hexdigest ''hello'' = ''5d41402abc4b2a76b9719d911017c592''"
  by code_simp

lemma md5_hexdigest_world: "md5_hexdigest ''world'' = ''7d793037a0760186574b0282f2f435e7''"
  by code_simp

section \<open>Saving and loading\<close>

lemma is_ascii_table: "list_all is_ascii table_b2a_base64"
  by (simp add: table_b2a_base64_def is_ascii_def)

lemma is_ascii_b2a:
  assumes "v AND 0x3F = (v::byte)"
  shows "is_ascii (b2a v)"
proof -
  have "unat (v AND 0x3F) \<le> unat (0x3F :: byte)"
    using word_and_le1 [of v "0x3F"] by (simp only: word_le_nat_alt)
  then have "unat v < length table_b2a_base64"
    using assms by (simp add: length_table)
  then have "b2a v \<in> set table_b2a_base64"
    unfolding b2a_def by (rule nth_mem)
  then show ?thesis
    using is_ascii_table by (simp add: list_all_iff)
qed

lemma is_ascii_pad: "is_ascii (CHR ''='')"
  by (simp add: is_ascii_def)

lemma is_ascii_b2a_base64: "list_all is_ascii (b2a_base64 bs)"
proof (induction bs rule: b2a_base64.induct)
  case 1
  show ?case by simp
next
  case (2 a)
  show ?case
    by (simp only: b2a_base64.simps list.pred_inject is_ascii_b2a [OF six1] is_ascii_b2a [OF six2']
        is_ascii_pad simp_thms)
next
  case (3 a b)
  show ?case
    by (simp only: b2a_base64.simps list.pred_inject is_ascii_b2a [OF six1] is_ascii_b2a [OF six2]
        is_ascii_b2a [OF six3'] is_ascii_pad simp_thms)
next
  case (4 a b c rest)
  show ?case
    by (simp only: b2a_base64.simps list.pred_inject list_all_append is_ascii_b2a [OF six1]
        is_ascii_b2a [OF six2] is_ascii_b2a [OF six3] is_ascii_b2a [OF six4] 4 simp_thms)
qed

lemma b64decode_b2a_base64: "b64decode (Str (b2a_base64 bs)) = Inr bs"
  by (simp add: is_ascii_b2a_base64 a2b_base64_def a2b_loop_b2a)

lemma from_dict_to_dict:
  assumes "entry_ok item"
  shows "\<exists>d. to_dict item = Inr d \<and> json_serializable d \<and> from_dict E d = Inr item"
proof (cases "content item")
  case (Str t)
  then have "type_item item = ''text''"
    using assms by (simp add: entry_ok_def)
  then show ?thesis
    using Str by (cases item) (simp add: to_dict_def from_dict_def json_serializable_def ClipboardItem_init_def)
next
  case (Bytes bs)
  then have "type_item item = ''image''"
    using assms by (simp add: entry_ok_def)
  then show ?thesis
    using Bytes
    by (cases item)
      (simp add: to_dict_def from_dict_def json_serializable_def ClipboardItem_init_def
        b64decode_b2a_base64 del: b64decode.simps)
qed

lemma comprehension_roundtrip:
  assumes "list_all entry_ok items"
  shows "\<exists>ds. comprehension to_dict items = Inr ds \<and> list_all json_serializable ds
           \<and> comprehension (from_dict E) ds = Inr items"
  using assms
proof (induction items)
  case Nil
  show ?case by simp
next
  case (Cons item items)
  obtain d where d: "to_dict item = Inr d" "json_serializable d" "from_dict E d = Inr item"
    using from_dict_to_dict [of item E] Cons.prems by auto
  obtain ds where ds: "comprehension to_dict items = Inr ds" "list_all json_serializable ds"
      "comprehension (from_dict E) ds = Inr items"
    using Cons by auto
  show ?case
    by (rule exI [of _ "d # ds"]) (simp add: d ds)
qed

section \<open>The capacity bound\<close>

lemma comprehension_length: "comprehension f xs = Inr ys \<Longrightarrow> length ys = length xs"
  by (induction xs arbitrary: ys) (auto split: sum.splits)

lemma save_config_store_ok:
  assumes "store_ok s"
  shows "store_ok (snd (save_config E s))"
  using assms
  by (auto simp: store_ok_def within_capacity_def file_within_capacity_def save_config_def
      dest: comprehension_length split: sum.splits)

lemma list_entries_entry_ok: "list_all entry_ok items \<Longrightarrow> list_entries items = Returned ()"
  by (induction items) (auto simp: entry_ok_def list_entry_def split: content.splits)

lemma populate_list_entry_ok: "list_all entry_ok (history s) \<Longrightarrow> populate_list s = Returned ()"
  by (simp add: populate_list_def list_entries_entry_ok)

lemma add_item_new_eq:
  assumes "\<not> known s c"
  shows "add_item E s c t =
         (case populate_list (s\<lparr> history :=
                 (if max_items s < int (length (history s)) + 1
                  then slice_to (ClipboardItem_init E c t # history s) (max_items s)
                  else ClipboardItem_init E c t # history s) \<rparr>) of
            Raised e \<Rightarrow>
              (Raised e, s\<lparr> history :=
                 (if max_items s < int (length (history s)) + 1
                  then slice_to (ClipboardItem_init E c t # history s) (max_items s)
                  else ClipboardItem_init E c t # history s) \<rparr>)
          | Returned u \<Rightarrow>
              save_config E (s\<lparr> history :=
                 (if max_items s < int (length (history s)) + 1
                  then slice_to (ClipboardItem_init E c t # history s) (max_items s)
                  else ClipboardItem_init E c t # history s) \<rparr>))"
proof -
  have "\<not> list_ex (\<lambda>existing. id_item existing = id_item (ClipboardItem_init E c t)) (history s)"
    using assms by (simp add: list_ex_ids known_def fingerprint_def ClipboardItem_init_def)
  then show ?thesis
    by (simp add: add_item_def Let_def split: outcome.splits)
qed

lemma add_item_new_history:
  assumes "\<not> known s c"
  shows "history (snd (add_item E s c t)) =
         (if max_items s < int (length (history s)) + 1
          then slice_to (ClipboardItem_init E c t # history s) (max_items s)
          else ClipboardItem_init E c t # history s)"
  unfolding add_item_new_eq [OF assms] by (simp split: outcome.splits)

lemma add_item_store_ok:
  assumes "store_ok s"
  shows "store_ok (snd (add_item E s c t))"
proof (cases "known s c")
  case True
  then show ?thesis using assms by (simp add: add_item_known)
next
  case False
  let ?s' = "s\<lparr> history :=
           (if max_items s < int (length (history s)) + 1
            then slice_to (ClipboardItem_init E c t # history s) (max_items s)
            else ClipboardItem_init E c t # history s) \<rparr>"
  have ok: "store_ok ?s'"
    using assms by (auto simp: store_ok_def within_capacity_def slice_to_def)
  have "snd (add_item E s c t) = ?s' \<or> snd (add_item E s c t) = snd (save_config E ?s')"
    unfolding add_item_new_eq [OF False] by (cases "populate_list ?s'") simp_all
  then show ?thesis
    using ok save_config_store_ok [OF ok, of E] by auto
qed

lemma clear_history_store_ok:
  assumes "store_ok s"
  shows "store_ok (snd (clear_history E s))"
proof -
  have "store_ok (s\<lparr> history := [] \<rparr>)"
    using assms by (auto simp: store_ok_def within_capacity_def)
  then show ?thesis
    unfolding clear_history_def by (rule save_config_store_ok)
qed

lemma paste_last_item_state [simp]: "snd (paste_last_item s) = s"
  by (simp add: paste_last_item_def split: list.splits)

lemma restore_item_state [simp]: "snd (restore_item s i) = s"
  by (simp add: restore_item_def split: sum.splits)

lemma init_store_ok:
  assumes "0 \<le> n" "file_within_capacity f"
  shows "store_ok (snd (ClipboardManager_init E n f))"
  using assms
  by (auto simp: store_ok_def within_capacity_def file_within_capacity_def ClipboardManager_init_def
      load_config_def dest: comprehension_length split: file_content.splits sum.splits option.splits)

lemma step_store_ok:
  assumes "store_ok s"
  shows "store_ok (step s ev)"
proof (cases ev)
  case (Restart E)
  have "file_within_capacity (config_file s)"
    using assms by (simp add: store_ok_def)
  then show ?thesis
    using Restart init_store_ok [of 10 "config_file s" E] by simp
qed (use assms in \<open>simp_all add: add_item_store_ok clear_history_store_ok\<close>)

lemma run_store_ok: "store_ok s \<Longrightarrow> store_ok (run s evs)"
  unfolding run_def by (induction evs arbitrary: s) (simp_all add: step_store_ok)

section \<open>A write that fails\<close>

lemma save_config_cannot_write:
  assumes "\<not> can_write E"
  shows "(\<exists>e. fst (save_config E s) = Raised e) \<and> snd (save_config E s) = s"
  using assms by (simp add: save_config_def split: sum.splits)

lemma save_config_roundtrip:
  assumes "list_all entry_ok (history s)" and "can_write E"
  shows "fst (save_config E s) = Returned ()
         \<and> ClipboardManager_init E' n (config_file (snd (save_config E s))) =
             (Returned (), snd (save_config E s))"
proof -
  obtain ds where ds: "comprehension to_dict (history s) = Inr ds" "list_all json_serializable ds"
      "comprehension (from_dict E') ds = Inr (history s)"
    using comprehension_roundtrip [OF assms(1)] by blast
  have "save_config E s =
        (Returned (), s\<lparr> config_file := Json \<lparr> c_history = Some ds, c_max_items = Some (max_items s) \<rparr> \<rparr>)"
    using assms(2) ds by (simp add: save_config_def)
  moreover have "ClipboardManager_init E' n (Json \<lparr> c_history = Some ds, c_max_items = Some (max_items s) \<rparr>) =
        (Returned (), s\<lparr> config_file := Json \<lparr> c_history = Some ds, c_max_items = Some (max_items s) \<rparr> \<rparr>)"
    using ds by (cases s) (simp add: ClipboardManager_init_def load_config_def)
  ultimately show ?thesis
    by simp
qed

lemma list_all_slice_to: "list_all P xs \<Longrightarrow> list_all P (slice_to xs m)"
  by (auto simp: slice_to_def list_all_iff dest: in_set_takeD)

section \<open>What the timer adds\<close>

lemma entry_ok_after_add_item:
  assumes "list_all entry_ok (history s)" "entry_ok (ClipboardItem_init E c t)"
  shows "list_all entry_ok (history (snd (add_item E s c t)))"
proof -
  have "set (history (snd (add_item E s c t))) \<subseteq> insert (ClipboardItem_init E c t) (set (history s))"
    by (rule history_after_add_item_subset)
  then show ?thesis
    using assms by (auto simp: list_all_iff)
qed

lemma entry_ok_after_check_clipboard:
  assumes "list_all entry_ok (history s)"
  shows "list_all entry_ok (history (snd (check_clipboard E s m)))"
  using assms
  by (auto simp: check_clipboard_def entry_ok_def ClipboardItem_init_def
      intro!: entry_ok_after_add_item split: option.splits)

section \<open>The claims\<close>

text \<open>
  C1, amended: the history holds at most \<open>max_items\<close> items in every state that a
  manager reaches, through calls of \<open>add_item\<close>, \<open>clear_history\<close>, \<open>paste_last_item\<close>
  and \<open>restore_item\<close> and through restarts on the file it has left, when it was started
  with a \<open>max_items\<close> that is not negative on a file that is absent, is not parseable, or
  holds a document with at most \<open>max_items\<close> items. \<open>load_config\<close> itself takes the
  items and \<open>max_items\<close> of the document as they are.
\<close>

theorem capacity_bound:
  assumes "0 \<le> n" and "file_within_capacity f"
  shows "within_capacity (run (snd (ClipboardManager_init E n f)) evs)"
  using run_store_ok [OF init_store_ok [OF assms]] by (simp add: store_ok_def)

text \<open>
  The amended C1 for a manager started without a file, after a session with two writes
  that fail and a restart.
\<close>

theorem capacity_bound_witness:
  "(0::int) \<le> 10 \<and> file_within_capacity NoFile
   \<and> within_capacity (run (snd (ClipboardManager_init env_rw 10 NoFile)) session)"
  using capacity_bound [of 10 NoFile env_rw session]
  by (simp add: file_within_capacity_def)

text \<open>
  C1 as stated fails: started on a document with two items and \<open>max_items\<close> 1, the
  manager has two items in a history of capacity 1.
\<close>

theorem capacity_bound_counterexample:
  "fst (ClipboardManager_init env_rw 10 crowded_file) = Returned ()
   \<and> \<not> within_capacity (snd (ClipboardManager_init env_rw 10 crowded_file))"
  by (simp add: ClipboardManager_init_def load_config_def crowded_file_def text_dict_def
      from_dict_def ClipboardItem_init_def within_capacity_def)

text \<open>
  C2, amended: when the id of the new payload is already the id of an item of the history,
  \<open>add_item\<close> returns at once and the state, the order of the history included, is
  unchanged. When \<open>max_items\<close> is at least 1 and the ids of the history are distinct, a
  second \<open>add_item\<close> of the same content changes nothing, and the history then has
  exactly one item with that id. It has exactly one item with that content when,
  moreover, every item has the id of its content and no item of another content has the
  id of the payload.
\<close>

theorem add_item_duplicate:
  "(known s c \<longrightarrow> add_item E s c t = (Returned (), s))
   \<and> (1 \<le> max_items s \<and> distinct (ids s) \<longrightarrow>
        add_item E' (snd (add_item E s c t)) c t' = (Returned (), snd (add_item E s c t))
        \<and> count_list (ids (snd (add_item E s c t))) (fingerprint c) = 1
        \<and> (list_all fingerprinted (history s)
             \<and> (\<forall>item\<in>set (history s). id_item item = fingerprint c \<longrightarrow> content item = c) \<longrightarrow>
            count_list (map content (history (snd (add_item E s c t)))) c = 1))"
proof (intro conjI impI)
  assume "known s c"
  then show "add_item E s c t = (Returned (), s)"
    by (rule add_item_known)
next
  let ?s1 = "snd (add_item E s c t)"
  assume inv: "1 \<le> max_items s \<and> distinct (ids s)"
  then have k: "known ?s1 c"
    by (intro known_after_add_item) simp
  then show "add_item E' ?s1 c t' = (Returned (), ?s1)"
    by (rule add_item_known)
  have d: "distinct (ids ?s1)"
    using inv by (intro distinct_ids_after_add_item) simp_all
  show one: "count_list (ids ?s1) (fingerprint c) = 1"
    using d k by (simp add: count_list_distinct known_def)
  assume fp: "list_all fingerprinted (history s)
    \<and> (\<forall>item\<in>set (history s). id_item item = fingerprint c \<longrightarrow> content item = c)"
  have "(content item = c) = (id_item item = fingerprint c)" if "item \<in> set (history ?s1)" for item
  proof (cases "item = ClipboardItem_init E c t")
    case True
    then show ?thesis
      by (simp add: ClipboardItem_init_def fingerprint_def)
  next
    case False
    then have "item \<in> set (history s)"
      using that history_after_add_item_subset [of E s c t] by auto
    then show ?thesis
      using fp by (auto simp: list_all_iff fingerprinted_def)
  qed
  then have "count_list (map content (history ?s1)) c = count_list (map id_item (history ?s1)) (fingerprint c)"
    by (rule count_list_map_cong)
  then show "count_list (map content (history ?s1)) c = 1"
    using one by (simp add: ids_def)
qed

text \<open>
  The amended C2 at the store that holds one pixel as an image, for the same pixel.
\<close>

theorem add_item_duplicate_witness:
  "known image_store (Bytes pixel) \<and> 1 \<le> max_items image_store \<and> distinct (ids image_store)
   \<and> list_all fingerprinted (history image_store)
   \<and> list_all (\<lambda>item. content item = Bytes pixel) (history image_store)
   \<and> add_item env_rw image_store (Bytes pixel) ''image'' = (Returned (), image_store)
   \<and> count_list (map content (history (snd (add_item env_rw image_store (Bytes pixel) ''image'')))) (Bytes pixel) = 1"
  using add_item_duplicate [of image_store "Bytes pixel" env_rw "''image''" env_rw "''image''"]
  by (simp add: image_store_def known_def ids_def fingerprint_def fingerprinted_def ClipboardItem_init_def)

text \<open>
  C2 as stated fails: in the store that holds one pixel as an image, adding twice the text
  that is the \<open>str\<close> of the bytes of the pixel leaves no item with that text.
\<close>

theorem add_item_twice_counterexample:
  "count_list (map content (history (snd (add_item env_rw
      (snd (add_item env_rw image_store (Str pixel_text) ''text'')) (Str pixel_text) ''text''))))
     (Str pixel_text) \<noteq> 1"
proof -
  have "known image_store (Str pixel_text)"
    by (simp add: known_def ids_def image_store_def fingerprint_def ClipboardItem_init_def bytes_repr_pixel)
  then have "add_item env_rw image_store (Str pixel_text) ''text'' = (Returned (), image_store)"
    by (rule add_item_known)
  then show ?thesis
    by (simp add: image_store_def ClipboardItem_init_def)
qed

text \<open>
  C3, amended: in a state whose \<open>max_items\<close> is not negative, \<open>add_item\<close> of a content
  whose id is not in the history leaves the new item followed by the old history, cut to
  the first \<open>max_items\<close> items; the new item is at index 0 when \<open>max_items\<close> is at
  least 1. After a sequence of calls whose contents have pairwise distinct ids, none of
  them in the history, the history is the first \<open>max_items\<close> items of the new items, the
  latest first, followed by the old history (for the empty sequence, when the history it
  starts from has at most \<open>max_items\<close> items).
\<close>

theorem add_item_front_evict:
  assumes "0 \<le> max_items s"
  shows "(\<not> known s c \<longrightarrow>
            history (snd (add_item E s c t)) =
              take (nat (max_items s)) (ClipboardItem_init E c t # history s)
            \<and> length (history (snd (add_item E s c t))) = min (nat (max_items s)) (Suc (length (history s)))
            \<and> (1 \<le> max_items s \<longrightarrow> history (snd (add_item E s c t)) ! 0 = ClipboardItem_init E c t))
         \<and> ((ps \<noteq> [] \<or> within_capacity s) \<and> distinct (map (\<lambda>p. fingerprint (fst p)) ps)
              \<and> (\<forall>p\<in>set ps. \<not> known s (fst p)) \<longrightarrow>
            history (add_items E s ps) =
              take (nat (max_items s)) (rev (map (\<lambda>p. ClipboardItem_init E (fst p) (snd p)) ps) @ history s))"
proof (intro conjI impI)
  assume new: "\<not> known s c"
  show h: "history (snd (add_item E s c t)) = take (nat (max_items s)) (ClipboardItem_init E c t # history s)"
    using add_item_new [OF new assms] .
  show "length (history (snd (add_item E s c t))) = min (nat (max_items s)) (Suc (length (history s)))"
    by (simp add: h min.commute)
  assume "1 \<le> max_items s"
  then obtain k where "nat (max_items s) = Suc k"
    by (cases "nat (max_items s)") auto
  then show "history (snd (add_item E s c t)) ! 0 = ClipboardItem_init E c t"
    by (simp add: h)
next
  assume "(ps \<noteq> [] \<or> within_capacity s) \<and> distinct (map (\<lambda>p. fingerprint (fst p)) ps)
              \<and> (\<forall>p\<in>set ps. \<not> known s (fst p))"
  then show "history (add_items E s ps) =
      take (nat (max_items s)) (rev (map (\<lambda>p. ClipboardItem_init E (fst p) (snd p)) ps) @ history s)"
    using add_items_history [OF assms] by blast
qed

text \<open>
  The amended C3 at the empty store of capacity 1: after the texts hello and world the
  history holds world alone.
\<close>

theorem add_item_front_evict_witness:
  "0 \<le> max_items (empty_store 1) \<and> \<not> known (empty_store 1) (Str ''hello'')
   \<and> 1 \<le> max_items (empty_store 1)
   \<and> hello_world \<noteq> [] \<and> distinct (map (\<lambda>p. fingerprint (fst p)) hello_world)
   \<and> \<not> known (empty_store 1) (Str ''world'')
   \<and> history (snd (add_item env_rw (empty_store 1) (Str ''hello'') ''text'')) ! 0 =
        ClipboardItem_init env_rw (Str ''hello'') ''text''
   \<and> history (add_items env_rw (empty_store 1) hello_world) =
        [ClipboardItem_init env_rw (Str ''world'') ''text'']"
  using add_item_front_evict [of "empty_store 1" "Str ''hello''" env_rw "''text''" hello_world]
  by (simp add: empty_store_def known_def ids_def hello_world_def fingerprint_def
      md5_hexdigest_hello md5_hexdigest_world)

text \<open>
  C3 as stated fails. A manager started on a document with two items and \<open>max_items\<close> -1
  has both items and that \<open>max_items\<close>; \<open>add_item\<close> of a new text then drops the last
  item of three and leaves two, more than \<open>max_items\<close>. And in the empty store of
  capacity 0, \<open>add_item\<close> of a new text leaves an empty history, with no item at index 0.
\<close>

theorem add_item_front_evict_counterexample:
  "ClipboardManager_init env_rw 10 negative_file = (Returned (), negative_store)
   \<and> \<not> known negative_store (Str ''hello'')
   \<and> history (snd (add_item env_rw negative_store (Str ''hello'') ''text'')) =
       [ClipboardItem_init env_rw (Str ''hello'') ''text'',
        \<lparr> id_item = ''0001'', content = Str ''one'', type_item = ''text'', timestamp = 5 \<rparr>]
   \<and> \<not> within_capacity (snd (add_item env_rw negative_store (Str ''hello'') ''text''))
   \<and> \<not> known (empty_store 0) (Str ''hello'')
   \<and> history (snd (add_item env_rw (empty_store 0) (Str ''hello'') ''text'')) = []"
proof -
  have init: "ClipboardManager_init env_rw 10 negative_file = (Returned (), negative_store)"
    by (simp add: ClipboardManager_init_def load_config_def negative_file_def negative_store_def
        text_dict_def from_dict_def ClipboardItem_init_def)
  have new: "\<not> known negative_store (Str ''hello'')"
    by (simp add: known_def ids_def negative_store_def fingerprint_def md5_hexdigest_hello)
  have h: "history (snd (add_item env_rw negative_store (Str ''hello'') ''text'')) =
       [ClipboardItem_init env_rw (Str ''hello'') ''text'',
        \<lparr> id_item = ''0001'', content = Str ''one'', type_item = ''text'', timestamp = 5 \<rparr>]"
    unfolding add_item_new_history [OF new] by (simp add: negative_store_def slice_to_def)
  have over: "\<not> within_capacity (snd (add_item env_rw negative_store (Str ''hello'') ''text''))"
    by (simp add: within_capacity_def h) (simp add: negative_store_def)
  have new0: "\<not> known (empty_store 0) (Str ''hello'')"
    by (simp add: known_def ids_def empty_store_def)
  have h0: "history (snd (add_item env_rw (empty_store 0) (Str ''hello'') ''text'')) = []"
    unfolding add_item_new_history [OF new0] by (simp add: empty_store_def slice_to_def)
  show ?thesis
    using init new h over new0 h0 by blast
qed

text \<open>
  C4: when every item of the history is a text holding a \<open>str\<close> or an image holding
  \<open>bytes\<close>, and the file can be written, \<open>save_config\<close> returns, and a manager started
  on the file it has written has the same history (the same items with their ids, contents,
  types and timestamps, in the same order) and the same \<open>max_items\<close>. Item by item,
  \<open>from_dict\<close> of \<open>to_dict\<close> is the item, and \<open>b64decode\<close> of \<open>b64encode\<close> gives
  back the bytes, whatever they are.
\<close>

theorem persistence_roundtrip:
  assumes "list_all entry_ok (history s)" and "can_write E"
  shows "fst (save_config E s) = Returned ()
         \<and> history (snd (save_config E s)) = history s
         \<and> max_items (snd (save_config E s)) = max_items s
         \<and> ClipboardManager_init E' n (config_file (snd (save_config E s))) =
             (Returned (), snd (save_config E s))
         \<and> (\<forall>item\<in>set (history s). \<exists>d. to_dict item = Inr d \<and> from_dict E' d = Inr item)
         \<and> b64decode (Str (b2a_base64 bs)) = Inr bs"
proof -
  obtain ds where ds: "comprehension to_dict (history s) = Inr ds" "list_all json_serializable ds"
      "comprehension (from_dict E') ds = Inr (history s)"
    using comprehension_roundtrip [OF assms(1)] by blast
  have "save_config E s =
        (Returned (), s\<lparr> config_file := Json \<lparr> c_history = Some ds, c_max_items = Some (max_items s) \<rparr> \<rparr>)"
    using assms(2) ds by (simp add: save_config_def)
  moreover have "ClipboardManager_init E' n (Json \<lparr> c_history = Some ds, c_max_items = Some (max_items s) \<rparr>) =
        (Returned (), s\<lparr> config_file := Json \<lparr> c_history = Some ds, c_max_items = Some (max_items s) \<rparr> \<rparr>)"
    using ds by (cases s) (simp add: ClipboardManager_init_def load_config_def)
  moreover have "\<forall>item\<in>set (history s). \<exists>d. to_dict item = Inr d \<and> from_dict E' d = Inr item"
    using assms(1) from_dict_to_dict [of _ E'] by (auto simp: list_all_iff)
  ultimately show ?thesis
    by (simp add: b64decode_b2a_base64 del: b64decode.simps)
qed

text \<open>
  C4 at a store of capacity 7 that holds a text and an image.
\<close>

theorem persistence_roundtrip_witness:
  "list_all entry_ok (history mixed_store) \<and> can_write env_rw
   \<and> fst (ClipboardManager_init env_ro 10 (config_file (snd (save_config env_rw mixed_store)))) = Returned ()
   \<and> history (snd (ClipboardManager_init env_ro 10 (config_file (snd (save_config env_rw mixed_store)))))
       = history mixed_store
   \<and> max_items (snd (ClipboardManager_init env_ro 10 (config_file (snd (save_config env_rw mixed_store)))))
       = 7"
  using persistence_roundtrip [of mixed_store env_rw env_ro 10]
  by (simp add: mixed_store_def entry_ok_def env_rw_def ClipboardItem_init_def)

text \<open>
  C5, amended: the program has no operation that sets the capacity and no error for a
  capacity below 1. \<open>max_items\<close> is replaced by \<open>load_config\<close> only, which takes the
  value of the document as it is, whatever the integer, returns, and keeps every item of
  the document. A history that is longer than a \<open>max_items\<close> that is not negative is
  cut, from the tail and in order, by the next \<open>add_item\<close> of a content whose id is new.
\<close>

theorem load_config_sets_capacity:
  "(comprehension (from_dict E) ds = Inr items \<longrightarrow>
      load_config E (s\<lparr> config_file := Json \<lparr> c_history = Some ds, c_max_items = Some n \<rparr> \<rparr>) =
        (Returned (), s\<lparr> config_file := Json \<lparr> c_history = Some ds, c_max_items = Some n \<rparr>,
                          history := items, max_items := n \<rparr>)
      \<and> length items = length ds)
   \<and> (0 \<le> max_items s' \<and> \<not> known s' c \<longrightarrow>
        history (snd (add_item E s' c t)) =
          take (nat (max_items s')) (ClipboardItem_init E c t # history s'))"
  by (auto simp: load_config_def add_item_new dest: comprehension_length)

text \<open>
  The amended C5 at the document with two items and \<open>max_items\<close> 1: both items are
  loaded, and the next new text leaves one item.
\<close>

theorem load_config_sets_capacity_witness:
  "comprehension (from_dict env_rw) [text_dict ''0001'' ''one'', text_dict ''0002'' ''two''] =
     Inr (history crowded_store)
   \<and> load_config env_rw ((empty_store 10)\<lparr> config_file := crowded_file \<rparr>) =
       (Returned (), crowded_store)
   \<and> 0 \<le> max_items crowded_store \<and> \<not> known crowded_store (Str ''hello'')
   \<and> history (snd (add_item env_rw crowded_store (Str ''hello'') ''text'')) =
       [ClipboardItem_init env_rw (Str ''hello'') ''text'']"
  using load_config_sets_capacity [where E = env_rw
      and ds = "[text_dict ''0001'' ''one'', text_dict ''0002'' ''two'']"
      and items = "history crowded_store" and s = "empty_store 10" and n = 1
      and s' = crowded_store and c = "Str ''hello''" and t = "''text''"]
  by (simp add: empty_store_def crowded_store_def crowded_file_def text_dict_def from_dict_def
      ClipboardItem_init_def known_def ids_def fingerprint_def md5_hexdigest_hello)

text \<open>
  C5 as stated fails: \<open>load_config\<close> of a document with \<open>max_items\<close> 0 returns, and the
  manager then has \<open>max_items\<close> 0 and the item of the document.
\<close>

theorem set_capacity_counterexample:
  "load_config env_rw ((empty_store 10)\<lparr> config_file := zero_capacity_file \<rparr>) =
     (Returned (),
      \<lparr> max_items = 0,
        history = [\<lparr> id_item = ''0001'', content = Str ''one'', type_item = ''text'', timestamp = 5 \<rparr>],
        config_file = zero_capacity_file \<rparr>)"
  by (simp add: load_config_def empty_store_def zero_capacity_file_def text_dict_def from_dict_def
      ClipboardItem_init_def)

text \<open>
  C6, amended: a write that fails is not caught. \<open>clear_history\<close> and \<open>add_item\<close> of a
  new content change the history first and call \<open>save_config\<close> last: when the file
  cannot be written they raise, the history is the changed one and the file is as it was.
  Every later \<open>clear_history\<close>, and every later \<open>add_item\<close> of a new content, calls
  \<open>save_config\<close> again on the whole state: when the file can then be written (and the
  items are texts holding \<open>str\<close> and images holding \<open>bytes\<close>), the call returns and
  the file holds the whole history of that moment.
\<close>

theorem write_failure_propagates:
  "(\<not> can_write E \<longrightarrow>
      (\<exists>e. fst (clear_history E s) = Raised e)
      \<and> history (snd (clear_history E s)) = []
      \<and> config_file (snd (clear_history E s)) = config_file s
      \<and> (\<not> known s c \<longrightarrow>
           (\<exists>e. fst (add_item E s c t) = Raised e)
           \<and> config_file (snd (add_item E s c t)) = config_file s
           \<and> (0 \<le> max_items s \<longrightarrow>
                history (snd (add_item E s c t)) =
                  take (nat (max_items s)) (ClipboardItem_init E c t # history s))))
   \<and> (can_write E \<longrightarrow>
        fst (clear_history E s) = Returned ()
        \<and> ClipboardManager_init E' n (config_file (snd (clear_history E s))) =
            (Returned (), snd (clear_history E s))
        \<and> (\<not> known s c \<and> list_all entry_ok (history s) \<and> entry_ok (ClipboardItem_init E c t) \<longrightarrow>
             fst (add_item E s c t) = Returned ()
             \<and> ClipboardManager_init E' n (config_file (snd (add_item E s c t))) =
                 (Returned (), snd (add_item E s c t))))"
proof (intro conjI impI)
  assume ro: "\<not> can_write E"
  show "\<exists>e. fst (clear_history E s) = Raised e"
    unfolding clear_history_def using save_config_cannot_write [OF ro] by blast
  show "history (snd (clear_history E s)) = []"
    by simp
  show "config_file (snd (clear_history E s)) = config_file s"
    unfolding clear_history_def using save_config_cannot_write [OF ro] by simp
  assume new: "\<not> known s c"
  show "\<exists>e. fst (add_item E s c t) = Raised e"
    unfolding add_item_new_eq [OF new] using save_config_cannot_write [OF ro]
    by (auto split: outcome.splits)
  show "config_file (snd (add_item E s c t)) = config_file s"
    unfolding add_item_new_eq [OF new] using save_config_cannot_write [OF ro]
    by (simp split: outcome.splits)
  assume "0 \<le> max_items s"
  then show "history (snd (add_item E s c t)) =
      take (nat (max_items s)) (ClipboardItem_init E c t # history s)"
    by (rule add_item_new [OF new])
next
  assume rw: "can_write E"
  have empty: "list_all entry_ok (history (s\<lparr> history := [] \<rparr>))"
    by simp
  show "fst (clear_history E s) = Returned ()"
    unfolding clear_history_def using save_config_roundtrip [OF empty rw] by blast
  show "ClipboardManager_init E' n (config_file (snd (clear_history E s))) =
      (Returned (), snd (clear_history E s))"
    unfolding clear_history_def using save_config_roundtrip [OF empty rw] by blast
  assume a: "\<not> known s c \<and> list_all entry_ok (history s) \<and> entry_ok (ClipboardItem_init E c t)"
  let ?h = "if max_items s < int (length (history s)) + 1
            then slice_to (ClipboardItem_init E c t # history s) (max_items s)
            else ClipboardItem_init E c t # history s"
  have ok: "list_all entry_ok (history (s\<lparr> history := ?h \<rparr>))"
    using a list_all_slice_to [of entry_ok "ClipboardItem_init E c t # history s" "max_items s"]
    by simp
  have eq: "add_item E s c t = save_config E (s\<lparr> history := ?h \<rparr>)"
    using a add_item_new_eq [of s c E t] populate_list_entry_ok [OF ok] by simp
  show "fst (add_item E s c t) = Returned ()"
    unfolding eq using save_config_roundtrip [OF ok rw] by blast
  show "ClipboardManager_init E' n (config_file (snd (add_item E s c t))) =
      (Returned (), snd (add_item E s c t))"
    unfolding eq using save_config_roundtrip [OF ok rw] by blast
qed

text \<open>
  The amended C6 at the empty store: a first text whose write fails, then a second text
  whose write succeeds; a manager started on the file has both.
\<close>

theorem write_failure_propagates_witness:
  "\<not> can_write env_ro \<and> can_write env_rw \<and> \<not> known (empty_store 10) (Str ''hello'')
   \<and> 0 \<le> max_items (empty_store 10)
   \<and> add_item env_ro (empty_store 10) (Str ''hello'') ''text'' =
       (Raised OSError, (empty_store 10)\<lparr> history := [ClipboardItem_init env_ro (Str ''hello'') ''text''] \<rparr>)
   \<and> \<not> known (snd (add_item env_ro (empty_store 10) (Str ''hello'') ''text'')) (Str ''world'')
   \<and> list_all entry_ok (history (snd (add_item env_ro (empty_store 10) (Str ''hello'') ''text'')))
   \<and> entry_ok (ClipboardItem_init env_rw (Str ''world'') ''text'')
   \<and> fst (add_item env_rw (snd (add_item env_ro (empty_store 10) (Str ''hello'') ''text''))
          (Str ''world'') ''text'') = Returned ()
   \<and> history (snd (ClipboardManager_init env_rw 10 (config_file (snd
          (add_item env_rw (snd (add_item env_ro (empty_store 10) (Str ''hello'') ''text''))
            (Str ''world'') ''text''))))) =
       [ClipboardItem_init env_rw (Str ''world'') ''text'', ClipboardItem_init env_ro (Str ''hello'') ''text'']"
proof -
  let ?s1 = "snd (add_item env_ro (empty_store 10) (Str ''hello'') ''text'')"
  have new: "\<not> known (empty_store 10) (Str ''hello'')"
    by (simp add: known_def ids_def empty_store_def)
  have s1: "add_item env_ro (empty_store 10) (Str ''hello'') ''text'' =
      (Raised OSError, (empty_store 10)\<lparr> history := [ClipboardItem_init env_ro (Str ''hello'') ''text''] \<rparr>)"
    unfolding add_item_new_eq [OF new]
    by (simp add: save_config_def to_dict_def ClipboardItem_init_def env_ro_def empty_store_def
        populate_list_def list_entry_def)
  have h1: "history ?s1 = [ClipboardItem_init env_ro (Str ''hello'') ''text'']"
    unfolding s1 by simp
  have m1: "max_items (empty_store 10) = 10"
    by (simp add: empty_store_def)
  have new2: "\<not> known ?s1 (Str ''world'')"
    by (simp add: h1 known_def ids_def fingerprint_def ClipboardItem_init_def
        md5_hexdigest_hello md5_hexdigest_world)
  have h2: "history (snd (add_item env_rw ?s1 (Str ''world'') ''text'')) =
      [ClipboardItem_init env_rw (Str ''world'') ''text'', ClipboardItem_init env_ro (Str ''hello'') ''text'']"
    using add_item_new [OF new2, of env_rw "''text''"] by (simp add: h1 m1)
  have ro: "\<not> can_write env_ro" and rw: "can_write env_rw"
    by (simp_all add: env_ro_def env_rw_def)
  have pos: "0 \<le> max_items (empty_store 10)"
    by (simp add: m1)
  have ok1: "list_all entry_ok (history ?s1)"
    by (simp add: h1 entry_ok_def ClipboardItem_init_def)
  have ok2: "entry_ok (ClipboardItem_init env_rw (Str ''world'') ''text'')"
    by (simp add: entry_ok_def ClipboardItem_init_def)
  have r: "fst (add_item env_rw ?s1 (Str ''world'') ''text'') = Returned ()"
    and i: "ClipboardManager_init env_rw 10 (config_file (snd (add_item env_rw ?s1 (Str ''world'') ''text''))) =
      (Returned (), snd (add_item env_rw ?s1 (Str ''world'') ''text''))"
    using write_failure_propagates [of env_rw ?s1 "Str ''world''" "''text''" env_rw 10] rw new2 ok1 ok2
    by blast+
  show ?thesis
    using ro rw new pos new2 ok1 ok2 r by (intro conjI s1) (simp_all add: i h2)
qed

text \<open>
  C6 as stated fails: when the file cannot be written, \<open>add_item\<close> of a new text and
  \<open>clear_history\<close> raise \<open>OSError\<close>.
\<close>

theorem write_failure_counterexample:
  "fst (add_item env_ro (empty_store 10) (Str ''hello'') ''text'') = Raised OSError
   \<and> fst (clear_history env_ro (empty_store 10)) = Raised OSError"
  by (simp add: add_item_def clear_history_def save_config_def Let_def to_dict_def
      ClipboardItem_init_def env_ro_def empty_store_def populate_list_def list_entry_def)

text \<open>
  C7, amended: neither \<open>paste_last_item\<close> nor \<open>restore_item\<close> changes the state, and
  \<open>paste_last_item\<close> on an empty history returns and leaves the clipboard alone.
  \<open>restore_item\<close> puts the item at \<open>index\<close> on the clipboard when \<open>index\<close> is from 0
  to the length of the history, excluded; it counts a negative \<open>index\<close> down to minus
  the length from the end of the history; for every other \<open>index\<close> it raises
  \<open>IndexError\<close>.
\<close>

theorem lookups:
  "snd (paste_last_item s) = s \<and> snd (restore_item s i) = s
   \<and> (history s = [] \<longrightarrow> fst (paste_last_item s) = Returned None)
   \<and> (0 \<le> i \<and> i < int (length (history s)) \<longrightarrow>
        fst (restore_item s i) = copy_to_clipboard (history s ! nat i))
   \<and> (- int (length (history s)) \<le> i \<and> i < 0 \<longrightarrow>
        fst (restore_item s i) = copy_to_clipboard (history s ! nat (int (length (history s)) + i)))
   \<and> (i < - int (length (history s)) \<or> int (length (history s)) \<le> i \<longrightarrow>
        fst (restore_item s i) = Raised IndexError)"
  by (auto simp: paste_last_item_def restore_item_def getitem_def split: list.splits)

text \<open>
  The amended C7 at the empty store and at the store that holds a text and an image.
\<close>

theorem lookups_witness:
  "history (empty_store 10) = [] \<and> paste_last_item (empty_store 10) = (Returned None, empty_store 10)
   \<and> restore_item mixed_store 1 = (Returned (Some (SetImage pixel)), mixed_store)
   \<and> restore_item mixed_store (- 2) = (Returned (Some (SetText ''hello'')), mixed_store)
   \<and> restore_item mixed_store 2 = (Raised IndexError, mixed_store)
   \<and> restore_item mixed_store (- 3) = (Raised IndexError, mixed_store)"
proof -
  have e: "history (empty_store 10) = []"
    by (simp add: empty_store_def)
  have l: "length (history mixed_store) = 2"
    by (simp add: mixed_store_def)
  have "fst (paste_last_item (empty_store 10)) = Returned None"
    and "snd (paste_last_item (empty_store 10)) = empty_store 10"
    using lookups [of "empty_store 10" 0] e by simp_all
  moreover have "fst (restore_item mixed_store 1) = Returned (Some (SetImage pixel))"
    and "snd (restore_item mixed_store 1) = mixed_store"
    using lookups [of mixed_store 1]
    by (simp_all add: l) (simp add: mixed_store_def copy_to_clipboard_def ClipboardItem_init_def)
  moreover have "fst (restore_item mixed_store (- 2)) = Returned (Some (SetText ''hello''))"
    and "snd (restore_item mixed_store (- 2)) = mixed_store"
    using lookups [of mixed_store "- 2"]
    by (simp_all add: l) (simp add: mixed_store_def copy_to_clipboard_def ClipboardItem_init_def)
  moreover have "fst (restore_item mixed_store 2) = Raised IndexError"
    and "snd (restore_item mixed_store 2) = mixed_store"
    using lookups [of mixed_store 2] by (simp_all add: l)
  moreover have "fst (restore_item mixed_store (- 3)) = Raised IndexError"
    and "snd (restore_item mixed_store (- 3)) = mixed_store"
    using lookups [of mixed_store "- 3"] by (simp_all add: l)
  ultimately show ?thesis
    using e by (simp add: prod_eq_iff)
qed

text \<open>
  C7 as stated fails: on the empty store, \<open>restore_item\<close> at index 0 raises
  \<open>IndexError\<close>.
\<close>

theorem restore_item_counterexample:
  "restore_item (empty_store 10) 0 = (Raised IndexError, empty_store 10)"
  by (simp add: restore_item_def getitem_def empty_store_def)

text \<open>
  C8: \<open>clear_history\<close> empties the history in every state, so that \<open>paste_last_item\<close>
  then finds nothing to paste and leaves the clipboard alone; and a second
  \<open>clear_history\<close> does what the first did and ends in the same state.
\<close>

theorem clear_history_idempotent:
  "history (snd (clear_history E s)) = []
   \<and> paste_last_item (snd (clear_history E s)) = (Returned None, snd (clear_history E s))
   \<and> clear_history E (snd (clear_history E s)) = clear_history E s"
  by (simp add: clear_history_def save_config_def paste_last_item_def)



text \<open>
  C10: the id of an item is the MD5 digest of \<open>str(content)\<close> and does not depend on
  the type. The text that is the \<open>str\<close> of some bytes, and these bytes as an image, are
  two contents with one id: when \<open>max_items\<close> is at least 1, \<open>add_item\<close> of the text
  after \<open>add_item\<close> of the image returns at once and changes nothing.
\<close>

theorem fingerprint_ignores_kind:
  "id_item (ClipboardItem_init E c t) = md5_hexdigest (py_str c)
   \<and> id_item (ClipboardItem_init E (Str (bytes_repr bs)) ''text'') =
       id_item (ClipboardItem_init E (Bytes bs) ''image'')
   \<and> Str (bytes_repr bs) \<noteq> Bytes bs
   \<and> (1 \<le> max_items s \<longrightarrow>
        add_item E' (snd (add_item E s (Bytes bs) ''image'')) (Str (bytes_repr bs)) ''text'' =
          (Returned (), snd (add_item E s (Bytes bs) ''image'')))"
proof -
  have same: "fingerprint (Str (bytes_repr bs)) = fingerprint (Bytes bs)"
    by (simp add: fingerprint_def)
  have "known (snd (add_item E s (Bytes bs) ''image'')) (Str (bytes_repr bs))"
    if "1 \<le> max_items s"
    using known_after_add_item [OF that, of E "Bytes bs" "''image''"] by (simp add: known_def same)
  then show ?thesis
    by (simp add: add_item_known ClipboardItem_init_def)
qed

text \<open>
  C10 at the empty store of capacity 10, for the bytes of one pixel.
\<close>

theorem fingerprint_ignores_kind_witness:
  "1 \<le> max_items (empty_store 10) \<and> bytes_repr pixel = pixel_text
   \<and> add_item env_rw (snd (add_item env_rw (empty_store 10) (Bytes pixel) ''image''))
        (Str pixel_text) ''text'' =
      (Returned (), snd (add_item env_rw (empty_store 10) (Bytes pixel) ''image''))"
  using fingerprint_ignores_kind [of env_rw "Bytes pixel" "''image''" pixel "empty_store 10" env_rw]
  by (simp add: empty_store_def bytes_repr_pixel)

end
